theory Spec2Isabelle
  imports Main
begin

section \<open>Token validation through the tokeninfo API (endpoints/context\_dev.go)\<close>

text \<open>
  A shallow embedding of \<^verbatim>\<open>context_dev.go\<close>: the \<^verbatim>\<open>tokeninfo\<close> struct, the
  introspection call \<^verbatim>\<open>fetchTokeninfo\<close>, the scope check \<^verbatim>\<open>getScopedTokeninfo\<close>
  and the methods of \<^verbatim>\<open>tokeninfoContext\<close>.

  Go returns \<^verbatim>\<open>(value, error)\<close>; a function that returns either \<^verbatim>\<open>(nil, err)\<close> or
  \<^verbatim>\<open>(v, nil)\<close> is modelled with the sum type \<open>error + 'a\<close> (\<open>Inl\<close> the error). The two
  accessors that return a non-nil zero value next to the error keep Go's pair.
  Every function that logs, calls the network or allocates takes the state and
  returns the new one.
\<close>

subsection \<open>Data\<close>

text \<open>
  The struct \<^verbatim>\<open>tokeninfo\<close>, field by field. \<^verbatim>\<open>ExpiresIn\<close> is a Go \<^verbatim>\<open>int\<close>; the
  code only compares it with zero, so it is an \<open>int\<close> here (a JSON number out of the
  machine range is a decoding failure, not a wrapped value).
\<close>

record tokeninfo =
  IssuedTo :: string
  Audience :: string
  UserID :: string
  Scope :: string
  ExpiresIn :: int
  Email :: string
  VerifiedEmail :: bool
  AccessType :: string
  ErrorDescription :: string

text \<open>
  The part of \<^verbatim>\<open>http.Response\<close> that the code reads: \<^verbatim>\<open>StatusCode\<close>, \<^verbatim>\<open>Status\<close>
  and the bytes of \<^verbatim>\<open>Body\<close>.
\<close>

record response =
  StatusCode :: int
  Status :: string
  Body :: string

text \<open>
  \<^verbatim>\<open>user.User\<close> of the platform; the code sets \<^verbatim>\<open>Email\<close> only, the other fields
  keep their zero values and are left out.
\<close>

record user =
  User_Email :: string

text \<open>
  Go errors carry a message. Each constructor stands for one place where the
  code returns an error and holds the message built there; \<open>TransportError\<close>,
  \<open>DecodeError\<close> and \<open>NamespaceError\<close> hold the message of the error that the
  HTTP client, the JSON decoder and the platform returned and that the code
  passes on as it is. \<open>Panic\<close> is the run-time panic of a method called through
  a nil \<^verbatim>\<open>*tokeninfoContext\<close>.
\<close>

datatype error =
    TransportError string
  | DecodeError string
  | RemoteRejection string
  | TokenExpired string
  | UnverifiedEmail string
  | InvalidEmail string
  | NoTokenPresent string
  | ScopeMismatch string
  | NamespaceError string
  | Panic

text \<open>
  Pointers are addresses. A \<^verbatim>\<open>*http.Request\<close> is an address that the code never
  dereferences itself. A \<^verbatim>\<open>*tokeninfoContext\<close> is an index into the list of the
  structs allocated so far; an index outside the list stands for nil.
\<close>

type_synonym addr = nat

text \<open>
  A platform context (\<^verbatim>\<open>context.Context\<close>) is known by how the platform derived
  it: from a request, or as the namespaced variant of the \<^verbatim>\<open>tokeninfoContext\<close>
  at a pointer (\<^verbatim>\<open>Namespace\<close> hands the receiver \<^verbatim>\<open>c\<close> itself to the platform,
  line 105).
\<close>

datatype pctx =
    NewContext addr
  | Namespaced addr string

text \<open>
  The struct \<^verbatim>\<open>tokeninfoContext\<close>: the embedded \<^verbatim>\<open>context.Context\<close> and the
  request pointer \<^verbatim>\<open>h\<close>.
\<close>

record tokeninfoContext =
  tc_Context :: pctx
  tc_h :: addr

text \<open>
  The state the code acts on: the allocated contexts, the URLs fetched so far
  (one entry for each \<^verbatim>\<open>Get\<close>), the lines written by \<^verbatim>\<open>log.Debugf\<close> and the
  number of response bodies closed.
\<close>

record state =
  heap :: "tokeninfoContext list"
  requests :: "string list"
  logs :: "string list"
  closed :: nat

text \<open>
  What the file calls and does not define: \<^verbatim>\<open>getToken\<close> (of this package, in
  another file), \<^verbatim>\<open>newHTTPClient(c).Get\<close> (the network), the JSON decoder
  filling a zero \<^verbatim>\<open>tokeninfo\<close>, the quoting of \<^verbatim>\<open>%q\<close> (\<^verbatim>\<open>strconv.Quote\<close>) and
  the platform's decision to refuse a namespace (\<open>None\<close> when it accepts, the
  message of its error otherwise). They are parameters of the model. The
  platform reaches a context through its pointer, so \<open>namespace_failure\<close> takes
  the heap and the pointer.
\<close>

record env =
  getToken :: "addr \<Rightarrow> string"
  http_Get :: "addr \<Rightarrow> string \<Rightarrow> string + response"
  json_Decode :: "string \<Rightarrow> string + tokeninfo"
  strconv_Quote :: "string \<Rightarrow> string"
  namespace_failure :: "tokeninfoContext list \<Rightarrow> addr \<Rightarrow> string \<Rightarrow> string option"

subsection \<open>Library functions the code relies on\<close>

definition tokeninfoEndpointURL :: string where
  "tokeninfoEndpointURL = ''https://www.googleapis.com/oauth2/v2/tokeninfo''"

definition StatusOK :: int where
  "StatusOK = 200"

text \<open>The verb \<^verbatim>\<open>%d\<close> of \<^verbatim>\<open>fmt\<close>: decimal digits, with a minus sign below zero.\<close>

fun fmt_nat :: "nat \<Rightarrow> string" where
  "fmt_nat n =
     (if n < 10 then [''0123456789'' ! n]
      else fmt_nat (n div 10) @ [''0123456789'' ! (n mod 10)])"

declare fmt_nat.simps [simp del]

definition fmt_d :: "int \<Rightarrow> string" where
  "fmt_d i = (if i < 0 then CHR ''-'' # fmt_nat (nat (- i)) else fmt_nat (nat i))"

text \<open>
  \<^verbatim>\<open>strings.Split(s, sep)\<close> for a separator of one byte: the pieces of \<open>s\<close>
  between the occurrences of \<open>sep\<close>, in order; a string without \<open>sep\<close> (the empty
  string too) gives one piece, the string itself.
\<close>

fun strings_Split :: "string \<Rightarrow> char \<Rightarrow> string list" where
  "strings_Split [] sep = [[]]"
| "strings_Split (x # xs) sep =
     (if x = sep then [] # strings_Split xs sep
      else (case strings_Split xs sep of
              [] \<Rightarrow> [[x]]
            | w # ws \<Rightarrow> (x # w) # ws))"

text \<open>\<^verbatim>\<open>log.Debugf\<close> appends the formatted line to the log.\<close>

definition Debugf :: "string \<Rightarrow> state \<Rightarrow> state" where
  "Debugf line s = s\<lparr>logs := logs s @ [line]\<rparr>"

definition deref :: "'a list \<Rightarrow> addr \<Rightarrow> 'a option" where
  "deref hp p = (if p < length hp then Some (hp ! p) else None)"

subsection \<open>fetchTokeninfo\<close>

text \<open>
  \<^verbatim>\<open>fetchTokeninfo(c, token)\<close>: log the URL and fetch it; a transport error is
  returned as it is. Otherwise the body is closed on every way out (the
  \<^verbatim>\<open>defer\<close>), the status line is logged and the body is decoded into a zero
  \<^verbatim>\<open>tokeninfo\<close>; a decoding error is returned as it is. Then come the checks, in
  the order of the source: the status, and the \<^verbatim>\<open>switch\<close> on \<^verbatim>\<open>ExpiresIn\<close>,
  \<^verbatim>\<open>VerifiedEmail\<close> and \<^verbatim>\<open>Email\<close>.
\<close>

definition fetchTokeninfo ::
  "env \<Rightarrow> addr \<Rightarrow> string \<Rightarrow> state \<Rightarrow> (error + tokeninfo) \<times> state" where
  "fetchTokeninfo env c token s =
     (let url = tokeninfoEndpointURL @ ''?access_token='' @ token;
          s1 = Debugf (''Fetching token info from '' @ strconv_Quote env url) s;
          s2 = s1\<lparr>requests := requests s1 @ [url]\<rparr>
      in case http_Get env c url of
           Inl err \<Rightarrow> (Inl (TransportError err), s2)
         | Inr resp \<Rightarrow>
             (let s3 = Debugf (''Tokeninfo replied with '' @ Status resp) s2;
                  s4 = s3\<lparr>closed := closed s3 + 1\<rparr>
              in case json_Decode env (Body resp) of
                   Inl err \<Rightarrow> (Inl (DecodeError err), s4)
                 | Inr ti \<Rightarrow>
                     if StatusCode resp \<noteq> StatusOK then
                       (let errMsg = ''Error fetching tokeninfo (status ''
                                       @ fmt_d (StatusCode resp) @ '')'';
                            errMsg = (if ErrorDescription ti \<noteq> []
                                      then errMsg @ '': '' @ ErrorDescription ti
                                      else errMsg)
                        in (Inl (RemoteRejection errMsg), s4))
                     else if ExpiresIn ti \<le> 0 then
                       (Inl (TokenExpired ''Token is expired''), s4)
                     else if \<not> VerifiedEmail ti then
                       (Inl (UnverifiedEmail
                               (''Unverified email '' @ strconv_Quote env (Email ti))), s4)
                     else if Email ti = [] then
                       (Inl (InvalidEmail ''Invalid email address''), s4)
                     else (Inr ti, s4)))"

subsection \<open>getScopedTokeninfo\<close>

text \<open>The \<^verbatim>\<open>for ... range\<close> loop over the pieces: stop at the first equal one.\<close>

fun range_match :: "string list \<Rightarrow> string \<Rightarrow> bool" where
  "range_match [] scope = False"
| "range_match (s # ss) scope = (if s = scope then True else range_match ss scope)"

text \<open>\<^verbatim>\<open>c.HTTPRequest()\<close> reads the field \<^verbatim>\<open>h\<close> through the pointer.\<close>

definition HTTPRequest :: "state \<Rightarrow> addr \<Rightarrow> error + addr" where
  "HTTPRequest s c = (case deref (heap s) c of None \<Rightarrow> Inl Panic | Some tc \<Rightarrow> Inr (tc_h tc))"

definition getScopedTokeninfo ::
  "env \<Rightarrow> addr \<Rightarrow> string \<Rightarrow> state \<Rightarrow> (error + tokeninfo) \<times> state" where
  "getScopedTokeninfo env c scope s =
     (case HTTPRequest s c of
        Inl e \<Rightarrow> (Inl e, s)
      | Inr r \<Rightarrow>
          (let token = getToken env r in
           if token = [] then (Inl (NoTokenPresent ''No token found''), s)
           else (case fetchTokeninfo env c token s of
                   (Inl err, s') \<Rightarrow> (Inl err, s')
                 | (Inr ti, s') \<Rightarrow>
                     if range_match (strings_Split (Scope ti) CHR '' '') scope
                     then (Inr ti, s')
                     else (Inl (ScopeMismatch
                             (''No scope matches: expected one of ''
                                @ strconv_Quote env (Scope ti) @ '', got ''
                                @ strconv_Quote env scope)), s'))))"

subsection \<open>The methods of tokeninfoContext\<close>

text \<open>
  Modelled from the spec: \<^verbatim>\<open>appengine.NewContext\<close>, which is not in the sources.
  The platform derives the platform context of a request.
\<close>

definition appengine_NewContext :: "addr \<Rightarrow> pctx" where
  "appengine_NewContext r = NewContext r"

text \<open>
  Modelled from the spec: \<^verbatim>\<open>appengine.Namespace\<close>, which is not in the sources.
  Asked for a namespace, the platform fails or produces a namespaced variant of
  the context it is given, a new platform context.
\<close>

definition appengine_Namespace ::
  "env \<Rightarrow> tokeninfoContext list \<Rightarrow> addr \<Rightarrow> string \<Rightarrow> string + pctx" where
  "appengine_Namespace env hp c name =
     (case namespace_failure env hp c name of
        Some err \<Rightarrow> Inl err
      | None \<Rightarrow> Inr (Namespaced c name))"

text \<open>
  \<^verbatim>\<open>Namespace\<close> asks the platform first; on success it allocates a new struct
  holding the new platform context and the field \<^verbatim>\<open>h\<close> of the receiver. The new
  pointer is the next free index.
\<close>

definition Namespace ::
  "env \<Rightarrow> addr \<Rightarrow> string \<Rightarrow> state \<Rightarrow> (error + addr) \<times> state" where
  "Namespace env c name s =
     (case appengine_Namespace env (heap s) c name of
        Inl err \<Rightarrow> (Inl (NamespaceError err), s)
      | Inr nc \<Rightarrow>
          (case deref (heap s) c of
             None \<Rightarrow> (Inl Panic, s)
           | Some tc \<Rightarrow>
               (Inr (length (heap s)),
                s\<lparr>heap := heap s @ [\<lparr>tc_Context = nc, tc_h = tc_h tc\<rparr>]\<rparr>)))"

definition CurrentOAuthClientID ::
  "env \<Rightarrow> addr \<Rightarrow> string \<Rightarrow> state \<Rightarrow> (string \<times> error option) \<times> state" where
  "CurrentOAuthClientID env c scope s =
     (case getScopedTokeninfo env c scope s of
        (Inl err, s') \<Rightarrow> (([], Some err), s')
      | (Inr ti, s') \<Rightarrow> ((IssuedTo ti, None), s'))"

definition CurrentOAuthUser ::
  "env \<Rightarrow> addr \<Rightarrow> string \<Rightarrow> state \<Rightarrow> (user option \<times> error option) \<times> state" where
  "CurrentOAuthUser env c scope s =
     (case getScopedTokeninfo env c scope s of
        (Inl err, s') \<Rightarrow> ((None, Some err), s')
      | (Inr ti, s') \<Rightarrow> ((Some \<lparr>User_Email = Email ti\<rparr>, None), s'))"

text \<open>\<^verbatim>\<open>tokeninfoContextFactory(r)\<close> allocates the context of a request.\<close>

definition tokeninfoContextFactory :: "addr \<Rightarrow> state \<Rightarrow> addr \<times> state" where
  "tokeninfoContextFactory r s =
     (let ac = appengine_NewContext r
      in (length (heap s), s\<lparr>heap := heap s @ [\<lparr>tc_Context = ac, tc_h = r\<rparr>]\<rparr>))"

text \<open>
  A context is allocated after the platform context it wraps was derived, so the
  platform context in the struct at a pointer is derived from a request or from
  a context at an earlier pointer. \<open>wf_heap\<close> says so of every struct.
\<close>

fun derived_before :: "addr \<Rightarrow> pctx \<Rightarrow> bool" where
  "derived_before p (NewContext r) = True"
| "derived_before p (Namespaced c name) = (c < p)"

fun wf_from :: "addr \<Rightarrow> tokeninfoContext list \<Rightarrow> bool" where
  "wf_from p [] = True"
| "wf_from p (tc # hp) = (derived_before p (tc_Context tc) \<and> wf_from (Suc p) hp)"

definition wf_heap :: "tokeninfoContext list \<Rightarrow> bool" where
  "wf_heap hp = wf_from 0 hp"

subsection \<open>A stub of the collaborators\<close>

text \<open>
  A fake tokeninfo server and platform, to run the model on concrete requests:
  the server answers every \<^verbatim>\<open>Get\<close> with \<open>resp\<close>, the decoder gives \<open>dec\<close> for
  its body, request \<open>0\<close> carries no bearer token and every other request carries
  \<^verbatim>\<open>ya29.token\<close>, and a namespace with a space in its name is refused. \<open>stub_Quote\<close> puts the string
  between double quotes, as \<^verbatim>\<open>strconv.Quote\<close> does for printable ASCII without
  quotes and backslashes.
\<close>

definition stub_Quote :: "string \<Rightarrow> string" where
  "stub_Quote str = CHR 0x22 # str @ [CHR 0x22]"

definition stub_getToken :: "addr \<Rightarrow> string" where
  "stub_getToken r = (if r = 0 then [] else ''ya29.token'')"

definition stub_Get :: "response \<Rightarrow> addr \<Rightarrow> string \<Rightarrow> string + response" where
  "stub_Get resp c url = Inr resp"

definition stub_Decode :: "string + tokeninfo \<Rightarrow> string \<Rightarrow> string + tokeninfo" where
  "stub_Decode dec body = dec"

definition stub_namespace_failure ::
  "tokeninfoContext list \<Rightarrow> addr \<Rightarrow> string \<Rightarrow> string option" where
  "stub_namespace_failure hp c name =
     (if CHR '' '' \<in> set name then Some ''appengine: namespace does not match''
      else None)"

definition stub_env :: "response \<Rightarrow> string + tokeninfo \<Rightarrow> env" where
  "stub_env resp dec =
     \<lparr>getToken = stub_getToken, http_Get = stub_Get resp, json_Decode = stub_Decode dec,
      strconv_Quote = stub_Quote, namespace_failure = stub_namespace_failure\<rparr>"

text \<open>
  Two contexts are allocated: context \<open>0\<close> wraps request \<open>7\<close> (with a token),
  context \<open>1\<close> wraps request \<open>0\<close> (without one). Nothing was fetched or logged.
\<close>

definition stub_state :: state where
  "stub_state =
     \<lparr>heap = [\<lparr>tc_Context = NewContext 7, tc_h = 7\<rparr>,
              \<lparr>tc_Context = NewContext 0, tc_h = 0\<rparr>],
      requests = [], logs = [], closed = 0\<rparr>"

definition resp_200 :: response where
  "resp_200 = \<lparr>StatusCode = 200, Status = ''200 OK'', Body = ''{...}''\<rparr>"

definition resp_400 :: response where
  "resp_400 = \<lparr>StatusCode = 400, Status = ''400 Bad Request'', Body = ''{...}''\<rparr>"

definition resp_500_empty :: response where
  "resp_500_empty = \<lparr>StatusCode = 500, Status = ''500 Internal Server Error'', Body = []\<rparr>"

definition ti_valid :: tokeninfo where
  "ti_valid =
     \<lparr>IssuedTo = ''client.apps.example.com'', Audience = ''client.apps.example.com'',
      UserID = ''12345'', Scope = ''a b c'', ExpiresIn = 3600,
      Email = ''user@example.com'', VerifiedEmail = True, AccessType = ''online'',
      ErrorDescription = []\<rparr>"

definition ti_invalid_value :: tokeninfo where
  "ti_invalid_value =
     \<lparr>IssuedTo = [], Audience = [], UserID = [], Scope = [], ExpiresIn = 0,
      Email = [], VerifiedEmail = False, AccessType = [],
      ErrorDescription = ''Invalid Value''\<rparr>"

text \<open>Variants of the valid answer, one field changed in each.\<close>

definition ti_with_error :: tokeninfo where
  "ti_with_error = ti_valid\<lparr>ErrorDescription := ''quota warning''\<rparr>"

definition ti_expires :: "int \<Rightarrow> tokeninfo" where
  "ti_expires n = ti_valid\<lparr>ExpiresIn := n\<rparr>"

definition ti_unverified :: "string \<Rightarrow> tokeninfo" where
  "ti_unverified e = ti_valid\<lparr>Email := e, VerifiedEmail := False\<rparr>"

definition ti_scope :: "string \<Rightarrow> tokeninfo" where
  "ti_scope g = ti_valid\<lparr>Scope := g\<rparr>"

text \<open>The state after one fetch by context \<open>0\<close> that reached the decoder.\<close>

definition stub_state_fetched :: "string \<Rightarrow> state" where
  "stub_state_fetched status =
     \<lparr>heap = [\<lparr>tc_Context = NewContext 7, tc_h = 7\<rparr>,
              \<lparr>tc_Context = NewContext 0, tc_h = 0\<rparr>],
      requests = [tokeninfoEndpointURL @ ''?access_token=ya29.token''],
      logs = [''Fetching token info from ''
                @ stub_Quote (tokeninfoEndpointURL @ ''?access_token=ya29.token''),
              ''Tokeninfo replied with '' @ status],
      closed = 1\<rparr>"

section \<open>Properties\<close>

subsection \<open>Helper lemmas\<close>

lemma fetchTokeninfo_decoded:
  assumes "http_Get env c (tokeninfoEndpointURL @ ''?access_token='' @ token) = Inr resp"
    and "json_Decode env (Body resp) = Inr ti"
  shows "fst (fetchTokeninfo env c token s) =
     (if StatusCode resp \<noteq> 200 then
        Inl (RemoteRejection
               (''Error fetching tokeninfo (status '' @ fmt_d (StatusCode resp) @ '')''
                  @ (if ErrorDescription ti \<noteq> [] then '': '' @ ErrorDescription ti else [])))
      else if ExpiresIn ti \<le> 0 then Inl (TokenExpired ''Token is expired'')
      else if \<not> VerifiedEmail ti then
        Inl (UnverifiedEmail (''Unverified email '' @ strconv_Quote env (Email ti)))
      else if Email ti = [] then Inl (InvalidEmail ''Invalid email address'')
      else Inr ti)"
  using assms by (simp add: fetchTokeninfo_def Let_def StatusOK_def)

lemma stub_fetch_valid:
  assumes "0 < ExpiresIn ti" and "VerifiedEmail ti" and "Email ti \<noteq> []"
  shows "fetchTokeninfo (stub_env resp_200 (Inr ti)) 0 ''ya29.token'' stub_state =
     (Inr ti, stub_state_fetched ''200 OK'')"
  using assms
  by (simp add: fetchTokeninfo_def Let_def StatusOK_def stub_env_def stub_Get_def
      stub_Decode_def resp_200_def stub_state_def stub_state_fetched_def Debugf_def)

lemma range_match_iff: "range_match ss scope = (scope \<in> set ss)"
  by (induction ss) auto

lemma strings_Split_not_Nil: "strings_Split xs sep \<noteq> []"
  by (induction xs) (auto split: list.splits)

lemma strings_Split_no_sep: "w \<in> set (strings_Split xs sep) \<Longrightarrow> sep \<notin> set w"
proof (induction xs arbitrary: w)
  case Nil
  then show ?case by simp
next
  case (Cons x xs)
  show ?case
  proof (cases "x = sep")
    case True
    with Cons show ?thesis by auto
  next
    case False
    obtain v vs where split: "strings_Split xs sep = v # vs"
      using strings_Split_not_Nil [of xs sep] by (cases "strings_Split xs sep") auto
    with Cons.prems False have "w = x # v \<or> w \<in> set vs" by simp
    then show ?thesis
    proof
      assume "w = x # v"
      moreover have "sep \<notin> set v" using Cons.IH [of v] split by simp
      ultimately show ?thesis using False by auto
    next
      assume "w \<in> set vs"
      then show ?thesis using Cons.IH [of w] split by simp
    qed
  qed
qed

lemma strings_Split_append:
  "strings_Split (u @ sep # v) sep = strings_Split u sep @ strings_Split v sep"
proof (induction u)
  case Nil
  then show ?case by simp
next
  case (Cons x u)
  obtain w ws where "strings_Split u sep = w # ws"
    using strings_Split_not_Nil [of u sep] by (cases "strings_Split u sep") auto
  with Cons show ?case by simp
qed

lemma strings_Split_length: "length (strings_Split xs sep) = Suc (count_list xs sep)"
  by (induction xs) (auto split: list.splits simp: strings_Split_not_Nil)

lemma strings_Split_no_sep_id: "sep \<notin> set xs \<Longrightarrow> strings_Split xs sep = [xs]"
  by (induction xs) auto

lemma getScopedTokeninfo_fetched:
  assumes "HTTPRequest s c = Inr r" and "getToken env r \<noteq> []"
    and "fetchTokeninfo env c (getToken env r) s = (Inr ti, s')"
  shows "getScopedTokeninfo env c scope s =
     (if scope \<in> set (strings_Split (Scope ti) CHR '' '') then Inr ti
      else Inl (ScopeMismatch
             (''No scope matches: expected one of '' @ strconv_Quote env (Scope ti)
                @ '', got '' @ strconv_Quote env scope)), s')"
  using assms by (simp add: getScopedTokeninfo_def Let_def range_match_iff)

lemma deref_append_new: "deref (hp @ [x]) (length hp) = Some x"
  by (simp add: deref_def)

lemma deref_append_old: "p < length hp \<Longrightarrow> deref (hp @ [x]) p = deref hp p"
  by (simp add: deref_def nth_append)

lemma deref_Some_less: "deref hp p = Some x \<Longrightarrow> p < length hp"
  by (simp add: deref_def split: if_splits)

lemma wf_from_append:
  "wf_from p (hp @ [tc]) = (wf_from p hp \<and> derived_before (p + length hp) (tc_Context tc))"
  by (induction hp arbitrary: p) auto

lemma wf_from_nth:
  "wf_from p hp \<Longrightarrow> i < length hp \<Longrightarrow> derived_before (p + i) (tc_Context (hp ! i))"
proof (induction hp arbitrary: p i)
  case Nil
  then show ?case by simp
next
  case (Cons tc hp)
  show ?case
  proof (cases i)
    case 0
    with Cons.prems show ?thesis by simp
  next
    case (Suc j)
    with Cons.prems have "derived_before (Suc p + j) (tc_Context (hp ! j))"
      by (intro Cons.IH) simp_all
    with Suc show ?thesis by simp
  qed
qed

lemma wf_heap_Nil: "wf_heap []"
  by (simp add: wf_heap_def)

lemma wf_heap_deref:
  "wf_heap hp \<Longrightarrow> deref hp c = Some tc \<Longrightarrow> derived_before c (tc_Context tc)"
  using wf_from_nth [of 0 hp c] by (auto simp add: wf_heap_def deref_def split: if_splits)

lemma tokeninfoContextFactory_wf:
  "wf_heap (heap s) \<Longrightarrow> wf_heap (heap (snd (tokeninfoContextFactory r s)))"
  by (simp add: tokeninfoContextFactory_def appengine_NewContext_def wf_heap_def
      wf_from_append)

lemma appengine_Namespace_Inr:
  "appengine_Namespace env hp c name = Inr nc \<Longrightarrow> nc = Namespaced c name"
  by (simp add: appengine_Namespace_def split: option.splits)

lemma Namespace_alloc:
  assumes "deref (heap s) c = Some tc"
    and "appengine_Namespace env (heap s) c name = Inr nc"
  shows "Namespace env c name s =
     (Inr (length (heap s)), s\<lparr>heap := heap s @ [\<lparr>tc_Context = nc, tc_h = tc_h tc\<rparr>]\<rparr>)"
  using assms by (simp add: Namespace_def)

subsection \<open>Successful introspection\<close>

text \<open>
  C1. When the server answers with status 200, the body decodes to a
  \<^verbatim>\<open>tokeninfo\<close> with \<^verbatim>\<open>expires_in > 0\<close>, \<^verbatim>\<open>verified_email = true\<close> and a
  non-empty \<^verbatim>\<open>email\<close>, then \<^verbatim>\<open>fetchTokeninfo\<close> returns exactly the decoded
  struct (all nine fields) and no error.
\<close>

theorem fetchTokeninfo_success:
  assumes "http_Get env c (tokeninfoEndpointURL @ ''?access_token='' @ token) = Inr resp"
    and "StatusCode resp = 200"
    and "json_Decode env (Body resp) = Inr ti"
    and "0 < ExpiresIn ti" and "VerifiedEmail ti" and "Email ti \<noteq> []"
  shows "fst (fetchTokeninfo env c token s) = Inr ti"
  using assms by (simp add: fetchTokeninfo_def Let_def StatusOK_def)

theorem fetchTokeninfo_success_witness:
  "http_Get (stub_env resp_200 (Inr ti_valid)) 0
       (tokeninfoEndpointURL @ ''?access_token='' @ ''ya29.token'') = Inr resp_200
   \<and> StatusCode resp_200 = 200
   \<and> json_Decode (stub_env resp_200 (Inr ti_valid)) (Body resp_200) = Inr ti_valid
   \<and> 0 < ExpiresIn ti_valid \<and> VerifiedEmail ti_valid \<and> Email ti_valid \<noteq> []
   \<and> fst (fetchTokeninfo (stub_env resp_200 (Inr ti_valid)) 0 ''ya29.token'' stub_state)
       = Inr ti_valid"
proof -
  have get: "http_Get (stub_env resp_200 (Inr ti_valid)) 0
       (tokeninfoEndpointURL @ ''?access_token='' @ ''ya29.token'') = Inr resp_200"
    by (simp add: stub_env_def stub_Get_def)
  have ok: "StatusCode resp_200 = 200"
    by (simp add: resp_200_def)
  have dec: "json_Decode (stub_env resp_200 (Inr ti_valid)) (Body resp_200) = Inr ti_valid"
    by (simp add: stub_env_def stub_Decode_def)
  have fields: "0 < ExpiresIn ti_valid" "VerifiedEmail ti_valid" "Email ti_valid \<noteq> []"
    by (simp_all add: ti_valid_def)
  from fetchTokeninfo_success [OF get ok dec fields, of stub_state] get ok dec fields
  show ?thesis by simp
qed

subsection \<open>Rejected answers\<close>

text \<open>
  C2, as the code has it. When the status of the answer is not 200 and the body
  decodes, \<^verbatim>\<open>fetchTokeninfo\<close> fails with RemoteRejection whatever the decoded
  fields are; the message holds the status code in decimal and, when the decoded
  error description is not empty, a colon and that description. The body is
  decoded before the status is looked at: when it does not decode, the decoder's
  error is returned instead, whatever the status.
\<close>

theorem fetchTokeninfo_non200:
  assumes "http_Get env c (tokeninfoEndpointURL @ ''?access_token='' @ token) = Inr resp"
  shows "(StatusCode resp \<noteq> 200 \<and> json_Decode env (Body resp) = Inr ti \<longrightarrow>
            fst (fetchTokeninfo env c token s) =
              Inl (RemoteRejection
                     (''Error fetching tokeninfo (status '' @ fmt_d (StatusCode resp) @ '')''
                        @ (if ErrorDescription ti \<noteq> [] then '': '' @ ErrorDescription ti
                           else []))))
       \<and> (json_Decode env (Body resp) = Inl err \<longrightarrow>
            fst (fetchTokeninfo env c token s) = Inl (DecodeError err))"
  using assms by (simp add: fetchTokeninfo_def Let_def StatusOK_def)

theorem fetchTokeninfo_non200_witness:
  "StatusCode resp_400 \<noteq> 200
   \<and> fst (fetchTokeninfo (stub_env resp_400 (Inr ti_invalid_value)) 0 ''ya29.token'' stub_state)
       = Inl (RemoteRejection ''Error fetching tokeninfo (status 400): Invalid Value'')
   \<and> fst (fetchTokeninfo (stub_env resp_400 (Inr ti_valid)) 0 ''ya29.token'' stub_state)
       = Inl (RemoteRejection ''Error fetching tokeninfo (status 400)'')
   \<and> fst (fetchTokeninfo (stub_env resp_400 (Inl ''EOF'')) 0 ''ya29.token'' stub_state)
       = Inl (DecodeError ''EOF'')
   \<and> StatusCode resp_200 = 200
   \<and> fst (fetchTokeninfo (stub_env resp_200 (Inl ''EOF'')) 0 ''ya29.token'' stub_state)
       = Inl (DecodeError ''EOF'')"
proof -
  have get: "http_Get (stub_env r d) 0
       (tokeninfoEndpointURL @ ''?access_token='' @ ''ya29.token'') = Inr r" for r d
    by (simp add: stub_env_def stub_Get_def)
  have st: "StatusCode resp_400 \<noteq> 200"
    by (simp add: resp_400_def)
  have ok: "StatusCode resp_200 = 200"
    by (simp add: resp_200_def)
  have dec: "json_Decode (stub_env r d) (Body r) = d" for r d
    by (simp add: stub_env_def stub_Decode_def)
  have code: "fmt_d (StatusCode resp_400) = ''400''"
    by (simp add: resp_400_def fmt_d_def fmt_nat.simps)
  from fetchTokeninfo_non200 [OF get, of resp_400 "Inr ti_invalid_value" ti_invalid_value
      stub_state]
  have a: "fst (fetchTokeninfo (stub_env resp_400 (Inr ti_invalid_value)) 0 ''ya29.token''
      stub_state) = Inl (RemoteRejection ''Error fetching tokeninfo (status 400): Invalid Value'')"
    by (simp add: st dec code ti_invalid_value_def)
  from fetchTokeninfo_non200 [OF get, of resp_400 "Inr ti_valid" ti_valid stub_state]
  have b: "fst (fetchTokeninfo (stub_env resp_400 (Inr ti_valid)) 0 ''ya29.token''
      stub_state) = Inl (RemoteRejection ''Error fetching tokeninfo (status 400)'')"
    by (simp add: st dec code ti_valid_def)
  from fetchTokeninfo_non200 [OF get, of resp_400 "Inl ''EOF''" _ stub_state "''EOF''"]
  have c: "fst (fetchTokeninfo (stub_env resp_400 (Inl ''EOF'')) 0 ''ya29.token''
      stub_state) = Inl (DecodeError ''EOF'')"
    by (simp add: dec)
  from fetchTokeninfo_non200 [OF get, of resp_200 "Inl ''EOF''" _ stub_state "''EOF''"]
  have d: "fst (fetchTokeninfo (stub_env resp_200 (Inl ''EOF'')) 0 ''ya29.token''
      stub_state) = Inl (DecodeError ''EOF'')"
    by (simp add: dec)
  from st ok a b c d show ?thesis by simp
qed

text \<open>
  C2 as stated fails: an answer with status 500 and an empty body, which the
  decoder rejects with \<^verbatim>\<open>EOF\<close>, makes \<^verbatim>\<open>fetchTokeninfo\<close> return the decoder's error,
  not a RemoteRejection.
\<close>

theorem fetchTokeninfo_non200_counterexample:
  "StatusCode resp_500_empty \<noteq> 200
   \<and> fst (fetchTokeninfo (stub_env resp_500_empty (Inl ''EOF'')) 0 ''ya29.token'' stub_state)
       = Inl (DecodeError ''EOF'')"
  by (simp add: fetchTokeninfo_def Let_def stub_env_def stub_Get_def stub_Decode_def
      resp_500_empty_def)

subsection \<open>Expiry\<close>

text \<open>
  C4. For an answer with status 200 that decodes, \<^verbatim>\<open>fetchTokeninfo\<close> fails with
  TokenExpired exactly when \<^verbatim>\<open>expires_in\<close> is at most 0. So it does for 0 and
  for -5; for 1 it does not, and with a verified, non-empty email it succeeds.
\<close>

theorem fetchTokeninfo_expired:
  assumes "http_Get env c (tokeninfoEndpointURL @ ''?access_token='' @ token) = Inr resp"
    and "StatusCode resp = 200"
    and "json_Decode env (Body resp) = Inr ti"
  shows "((\<exists>m. fst (fetchTokeninfo env c token s) = Inl (TokenExpired m)) = (ExpiresIn ti \<le> 0))
       \<and> (ExpiresIn ti = 0 \<longrightarrow>
            fst (fetchTokeninfo env c token s) = Inl (TokenExpired ''Token is expired''))
       \<and> (ExpiresIn ti = - 5 \<longrightarrow>
            fst (fetchTokeninfo env c token s) = Inl (TokenExpired ''Token is expired''))
       \<and> (ExpiresIn ti = 1 \<longrightarrow>
            (\<forall>m. fst (fetchTokeninfo env c token s) \<noteq> Inl (TokenExpired m)))
       \<and> (ExpiresIn ti = 1 \<and> VerifiedEmail ti \<and> Email ti \<noteq> [] \<longrightarrow>
            fst (fetchTokeninfo env c token s) = Inr ti)"
proof -
  note r = fetchTokeninfo_decoded [OF assms(1) assms(3), of s]
  have "(\<exists>m. fst (fetchTokeninfo env c token s) = Inl (TokenExpired m)) = (ExpiresIn ti \<le> 0)"
    using assms(2) by (simp add: r)
  moreover have "ExpiresIn ti \<le> 0 \<longrightarrow>
      fst (fetchTokeninfo env c token s) = Inl (TokenExpired ''Token is expired'')"
    using assms(2) by (simp add: r)
  moreover have "0 < ExpiresIn ti \<longrightarrow>
      (\<forall>m. fst (fetchTokeninfo env c token s) \<noteq> Inl (TokenExpired m))"
    using assms(2) by (simp add: r)
  moreover have "0 < ExpiresIn ti \<and> VerifiedEmail ti \<and> Email ti \<noteq> [] \<longrightarrow>
      fst (fetchTokeninfo env c token s) = Inr ti"
    using assms(2) by (simp add: r)
  ultimately show ?thesis by simp
qed

theorem fetchTokeninfo_expired_witness:
  "fst (fetchTokeninfo (stub_env resp_200 (Inr (ti_expires 0))) 0 ''ya29.token'' stub_state)
     = Inl (TokenExpired ''Token is expired'')
   \<and> fst (fetchTokeninfo (stub_env resp_200 (Inr (ti_expires (- 5)))) 0 ''ya29.token'' stub_state)
     = Inl (TokenExpired ''Token is expired'')
   \<and> fst (fetchTokeninfo (stub_env resp_200 (Inr (ti_expires 1))) 0 ''ya29.token'' stub_state)
     = Inr (ti_expires 1)"
proof -
  have get: "http_Get (stub_env resp_200 d) 0
       (tokeninfoEndpointURL @ ''?access_token='' @ ''ya29.token'') = Inr resp_200" for d
    by (simp add: stub_env_def stub_Get_def)
  have ok: "StatusCode resp_200 = 200"
    by (simp add: resp_200_def)
  have dec: "json_Decode (stub_env resp_200 (Inr x)) (Body resp_200) = Inr x" for x
    by (simp add: stub_env_def stub_Decode_def)
  have fields: "ExpiresIn (ti_expires n) = n" "VerifiedEmail (ti_expires n)"
    "Email (ti_expires n) \<noteq> []" for n
    by (simp_all add: ti_expires_def ti_valid_def)
  from fetchTokeninfo_expired [OF get ok dec, of "ti_expires 0" stub_state]
  have a: "fst (fetchTokeninfo (stub_env resp_200 (Inr (ti_expires 0))) 0 ''ya29.token''
      stub_state) = Inl (TokenExpired ''Token is expired'')"
    by (simp add: fields)
  from fetchTokeninfo_expired [OF get ok dec, of "ti_expires (- 5)" stub_state]
  have b: "fst (fetchTokeninfo (stub_env resp_200 (Inr (ti_expires (- 5)))) 0 ''ya29.token''
      stub_state) = Inl (TokenExpired ''Token is expired'')"
    by (simp add: fields)
  from fetchTokeninfo_expired [OF get ok dec, of "ti_expires 1" stub_state]
  have c: "fst (fetchTokeninfo (stub_env resp_200 (Inr (ti_expires 1))) 0 ''ya29.token''
      stub_state) = Inr (ti_expires 1)"
    by (simp add: fields)
  from a b c show ?thesis by simp
qed

subsection \<open>Unverified email\<close>

text \<open>
  C5. For an answer with status 200 that decodes with \<^verbatim>\<open>expires_in > 0\<close> and
  \<^verbatim>\<open>verified_email = false\<close>, \<^verbatim>\<open>fetchTokeninfo\<close> fails with UnverifiedEmail and
  the message holds the quoted email. The check comes after the expiry check (an
  expired, unverified token is reported as expired) and before the empty-email
  check (an unverified token with an empty email is reported as unverified; the
  empty email is reported only when the email is verified).
\<close>

theorem fetchTokeninfo_unverified:
  assumes "http_Get env c (tokeninfoEndpointURL @ ''?access_token='' @ token) = Inr resp"
    and "StatusCode resp = 200"
    and "json_Decode env (Body resp) = Inr ti"
  shows "(0 < ExpiresIn ti \<and> \<not> VerifiedEmail ti \<longrightarrow>
            fst (fetchTokeninfo env c token s) =
              Inl (UnverifiedEmail (''Unverified email '' @ strconv_Quote env (Email ti))))
       \<and> (0 < ExpiresIn ti \<and> \<not> VerifiedEmail ti \<and> Email ti = [] \<longrightarrow>
            fst (fetchTokeninfo env c token s) =
              Inl (UnverifiedEmail (''Unverified email '' @ strconv_Quote env [])))
       \<and> (ExpiresIn ti \<le> 0 \<and> \<not> VerifiedEmail ti \<longrightarrow>
            fst (fetchTokeninfo env c token s) = Inl (TokenExpired ''Token is expired''))
       \<and> (0 < ExpiresIn ti \<and> VerifiedEmail ti \<and> Email ti = [] \<longrightarrow>
            fst (fetchTokeninfo env c token s) = Inl (InvalidEmail ''Invalid email address''))"
  using assms(2) by (simp add: fetchTokeninfo_decoded [OF assms(1) assms(3)])

theorem fetchTokeninfo_unverified_witness:
  "fst (fetchTokeninfo (stub_env resp_200 (Inr (ti_unverified ''eve@example.com''))) 0
         ''ya29.token'' stub_state)
     = Inl (UnverifiedEmail (''Unverified email '' @ stub_Quote ''eve@example.com''))
   \<and> fst (fetchTokeninfo (stub_env resp_200 (Inr (ti_unverified []))) 0
         ''ya29.token'' stub_state)
     = Inl (UnverifiedEmail (''Unverified email '' @ stub_Quote []))
   \<and> fst (fetchTokeninfo (stub_env resp_200 (Inr ((ti_unverified [])\<lparr>ExpiresIn := 0\<rparr>))) 0
         ''ya29.token'' stub_state)
     = Inl (TokenExpired ''Token is expired'')
   \<and> fst (fetchTokeninfo (stub_env resp_200 (Inr (ti_valid\<lparr>Email := []\<rparr>))) 0
         ''ya29.token'' stub_state)
     = Inl (InvalidEmail ''Invalid email address'')"
proof -
  have get: "http_Get (stub_env resp_200 d) 0
       (tokeninfoEndpointURL @ ''?access_token='' @ ''ya29.token'') = Inr resp_200" for d
    by (simp add: stub_env_def stub_Get_def)
  have ok: "StatusCode resp_200 = 200"
    by (simp add: resp_200_def)
  have dec: "json_Decode (stub_env resp_200 (Inr x)) (Body resp_200) = Inr x" for x
    by (simp add: stub_env_def stub_Decode_def)
  have q: "strconv_Quote (stub_env resp_200 d) = stub_Quote" for d
    by (simp add: stub_env_def)
  from fetchTokeninfo_unverified [OF get ok dec, of "ti_unverified ''eve@example.com''" stub_state]
  have a: "fst (fetchTokeninfo (stub_env resp_200 (Inr (ti_unverified ''eve@example.com''))) 0
      ''ya29.token'' stub_state)
      = Inl (UnverifiedEmail (''Unverified email '' @ stub_Quote ''eve@example.com''))"
    by (simp add: q ti_unverified_def ti_valid_def)
  from fetchTokeninfo_unverified [OF get ok dec, of "ti_unverified []" stub_state]
  have b: "fst (fetchTokeninfo (stub_env resp_200 (Inr (ti_unverified []))) 0
      ''ya29.token'' stub_state) = Inl (UnverifiedEmail (''Unverified email '' @ stub_Quote []))"
    by (simp add: q ti_unverified_def ti_valid_def)
  from fetchTokeninfo_unverified [OF get ok dec, of "(ti_unverified [])\<lparr>ExpiresIn := 0\<rparr>" stub_state]
  have c: "fst (fetchTokeninfo (stub_env resp_200 (Inr ((ti_unverified [])\<lparr>ExpiresIn := 0\<rparr>))) 0
      ''ya29.token'' stub_state) = Inl (TokenExpired ''Token is expired'')"
    by (simp add: q ti_unverified_def ti_valid_def)
  from fetchTokeninfo_unverified [OF get ok dec, of "ti_valid\<lparr>Email := []\<rparr>" stub_state]
  have d: "fst (fetchTokeninfo (stub_env resp_200 (Inr (ti_valid\<lparr>Email := []\<rparr>))) 0
      ''ya29.token'' stub_state) = Inl (InvalidEmail ''Invalid email address'')"
    by (simp add: q ti_valid_def)
  from a b c d show ?thesis by simp
qed

subsection \<open>What a returned tokeninfo satisfies\<close>

text \<open>
  C7, as the code has it. A \<^verbatim>\<open>tokeninfo\<close> that \<^verbatim>\<open>fetchTokeninfo\<close> returns was
  decoded from an answer with status 200 and has \<^verbatim>\<open>expires_in > 0\<close>,
  \<^verbatim>\<open>verified_email = true\<close> and a non-empty \<^verbatim>\<open>email\<close>. Its error description
  is the decoded one; the code does not look at it when the status is 200.
\<close>

theorem fetchTokeninfo_returned:
  assumes "fetchTokeninfo env c token s = (Inr ti, s')"
  shows "0 < ExpiresIn ti \<and> VerifiedEmail ti \<and> Email ti \<noteq> []
       \<and> (\<exists>resp. http_Get env c (tokeninfoEndpointURL @ ''?access_token='' @ token) = Inr resp
                 \<and> StatusCode resp = 200 \<and> json_Decode env (Body resp) = Inr ti)"
  using assms
  by (auto simp add: fetchTokeninfo_def Let_def StatusOK_def split: sum.splits if_splits)

theorem fetchTokeninfo_returned_witness:
  "fetchTokeninfo (stub_env resp_200 (Inr ti_with_error)) 0 ''ya29.token'' stub_state
     = (Inr ti_with_error, stub_state_fetched ''200 OK'')
   \<and> 0 < ExpiresIn ti_with_error \<and> VerifiedEmail ti_with_error \<and> Email ti_with_error \<noteq> []
   \<and> ErrorDescription ti_with_error = ''quota warning''"
proof -
  have run: "fetchTokeninfo (stub_env resp_200 (Inr ti_with_error)) 0 ''ya29.token'' stub_state
     = (Inr ti_with_error, stub_state_fetched ''200 OK'')"
    by (simp add: fetchTokeninfo_def Let_def StatusOK_def stub_env_def stub_Get_def
        stub_Decode_def resp_200_def ti_with_error_def ti_valid_def stub_state_def
        stub_state_fetched_def Debugf_def)
  from fetchTokeninfo_returned [OF run] run show ?thesis
    by (simp add: ti_with_error_def)
qed

text \<open>
  C7 as stated fails: an answer with status 200 whose body holds valid fields and
  a non-empty error description is returned as a success, error description
  included.
\<close>

theorem fetchTokeninfo_returned_counterexample:
  "fst (fetchTokeninfo (stub_env resp_200 (Inr ti_with_error)) 0 ''ya29.token'' stub_state)
     = Inr ti_with_error
   \<and> ErrorDescription ti_with_error \<noteq> []"
  by (simp add: fetchTokeninfo_def Let_def StatusOK_def stub_env_def stub_Get_def
      stub_Decode_def resp_200_def ti_with_error_def ti_valid_def)

subsection \<open>Scope matching\<close>

text \<open>
  C3. After a successful fetch, \<^verbatim>\<open>getScopedTokeninfo\<close> splits the granted scope
  string at every single space and succeeds exactly when the requested scope is
  equal to one of the pieces; otherwise it fails with ScopeMismatch, and the
  message holds the whole granted string and the requested scope, both quoted.
  Granted \<^verbatim>\<open>"a b c"\<close>: \<^verbatim>\<open>"b"\<close> matches, \<^verbatim>\<open>"d"\<close> does not. Granted \<^verbatim>\<open>""\<close>: \<^verbatim>\<open>""\<close>
  matches, \<^verbatim>\<open>"x"\<close> does not. A prefix or a part of a piece does not match:
  granted \<^verbatim>\<open>"ab cd"\<close>, requested \<^verbatim>\<open>"a"\<close>, \<^verbatim>\<open>"b"\<close> or \<^verbatim>\<open>"b c"\<close>.
\<close>

theorem getScopedTokeninfo_scope:
  assumes "HTTPRequest s c = Inr r" and "getToken env r \<noteq> []"
    and "fetchTokeninfo env c (getToken env r) s = (Inr ti, s')"
  shows "getScopedTokeninfo env c scope s =
           (if scope \<in> set (strings_Split (Scope ti) CHR '' '') then Inr ti
            else Inl (ScopeMismatch
                   (''No scope matches: expected one of '' @ strconv_Quote env (Scope ti)
                      @ '', got '' @ strconv_Quote env scope)), s')
       \<and> (Scope ti = ''a b c'' \<longrightarrow> getScopedTokeninfo env c ''b'' s = (Inr ti, s'))
       \<and> (Scope ti = ''a b c'' \<longrightarrow>
            getScopedTokeninfo env c ''d'' s =
              (Inl (ScopeMismatch
                 (''No scope matches: expected one of '' @ strconv_Quote env ''a b c''
                    @ '', got '' @ strconv_Quote env ''d'')), s'))
       \<and> (Scope ti = [] \<longrightarrow> getScopedTokeninfo env c [] s = (Inr ti, s'))
       \<and> (Scope ti = [] \<longrightarrow>
            getScopedTokeninfo env c ''x'' s =
              (Inl (ScopeMismatch
                 (''No scope matches: expected one of '' @ strconv_Quote env []
                    @ '', got '' @ strconv_Quote env ''x'')), s'))
       \<and> (Scope ti = ''ab cd'' \<and> scope \<in> {''a'', ''b'', ''b c''} \<longrightarrow>
            getScopedTokeninfo env c scope s =
              (Inl (ScopeMismatch
                 (''No scope matches: expected one of '' @ strconv_Quote env ''ab cd''
                    @ '', got '' @ strconv_Quote env scope)), s'))"
proof -
  note g = getScopedTokeninfo_fetched [OF assms]
  have "Scope ti = ''a b c'' \<longrightarrow> getScopedTokeninfo env c ''b'' s = (Inr ti, s')"
    by (simp add: g)
  moreover have "Scope ti = ''a b c'' \<longrightarrow>
      getScopedTokeninfo env c ''d'' s =
        (Inl (ScopeMismatch
           (''No scope matches: expected one of '' @ strconv_Quote env ''a b c''
              @ '', got '' @ strconv_Quote env ''d'')), s')"
    by (simp add: g)
  moreover have "Scope ti = [] \<longrightarrow> getScopedTokeninfo env c [] s = (Inr ti, s')"
    by (simp add: g)
  moreover have "Scope ti = [] \<longrightarrow>
      getScopedTokeninfo env c ''x'' s =
        (Inl (ScopeMismatch
           (''No scope matches: expected one of '' @ strconv_Quote env []
              @ '', got '' @ strconv_Quote env ''x'')), s')"
    by (simp add: g)
  moreover have "Scope ti = ''ab cd'' \<and> scope \<in> {''a'', ''b'', ''b c''} \<longrightarrow>
      getScopedTokeninfo env c scope s =
        (Inl (ScopeMismatch
           (''No scope matches: expected one of '' @ strconv_Quote env ''ab cd''
              @ '', got '' @ strconv_Quote env scope)), s')"
    by (auto simp add: g)
  ultimately show ?thesis using g [of scope] by simp
qed

theorem getScopedTokeninfo_scope_witness:
  "getScopedTokeninfo (stub_env resp_200 (Inr ti_valid)) 0 ''b'' stub_state
     = (Inr ti_valid, stub_state_fetched ''200 OK'')
   \<and> getScopedTokeninfo (stub_env resp_200 (Inr ti_valid)) 0 ''d'' stub_state
     = (Inl (ScopeMismatch
          (''No scope matches: expected one of '' @ stub_Quote ''a b c''
             @ '', got '' @ stub_Quote ''d'')), stub_state_fetched ''200 OK'')
   \<and> getScopedTokeninfo (stub_env resp_200 (Inr (ti_scope []))) 0 [] stub_state
     = (Inr (ti_scope []), stub_state_fetched ''200 OK'')
   \<and> getScopedTokeninfo (stub_env resp_200 (Inr (ti_scope []))) 0 ''x'' stub_state
     = (Inl (ScopeMismatch
          (''No scope matches: expected one of '' @ stub_Quote []
             @ '', got '' @ stub_Quote ''x'')), stub_state_fetched ''200 OK'')
   \<and> getScopedTokeninfo (stub_env resp_200 (Inr (ti_scope ''ab cd''))) 0 ''a'' stub_state
     = (Inl (ScopeMismatch
          (''No scope matches: expected one of '' @ stub_Quote ''ab cd''
             @ '', got '' @ stub_Quote ''a'')), stub_state_fetched ''200 OK'')"
proof -
  have req: "HTTPRequest stub_state 0 = Inr 7"
    by (simp add: HTTPRequest_def deref_def stub_state_def)
  have tok: "getToken (stub_env resp_200 d) 7 = ''ya29.token''" for d
    by (simp add: stub_env_def stub_getToken_def)
  have tok_ne: "getToken (stub_env resp_200 d) 7 \<noteq> []" for d
    by (simp add: tok)
  have q: "strconv_Quote (stub_env resp_200 d) = stub_Quote" for d
    by (simp add: stub_env_def)
  have fetch: "fetchTokeninfo (stub_env resp_200 (Inr (ti_scope g))) 0
      (getToken (stub_env resp_200 (Inr (ti_scope g))) 7) stub_state
      = (Inr (ti_scope g), stub_state_fetched ''200 OK'')" for g
    unfolding tok by (rule stub_fetch_valid) (simp_all add: ti_scope_def ti_valid_def)
  have v: "ti_valid = ti_scope ''a b c''"
    by (simp add: ti_scope_def ti_valid_def)
  have sc: "Scope (ti_scope g) = g" for g
    by (simp add: ti_scope_def)
  from getScopedTokeninfo_scope [OF req tok_ne fetch, of "''a b c''" "''b''"]
  have a: "getScopedTokeninfo (stub_env resp_200 (Inr ti_valid)) 0 ''b'' stub_state
     = (Inr ti_valid, stub_state_fetched ''200 OK'')"
    by (simp add: sc v)
  from getScopedTokeninfo_scope [OF req tok_ne fetch, of "''a b c''" "''d''"]
  have b: "getScopedTokeninfo (stub_env resp_200 (Inr ti_valid)) 0 ''d'' stub_state
     = (Inl (ScopeMismatch
          (''No scope matches: expected one of '' @ stub_Quote ''a b c''
             @ '', got '' @ stub_Quote ''d'')), stub_state_fetched ''200 OK'')"
    by (simp add: sc v q)
  from getScopedTokeninfo_scope [OF req tok_ne fetch, of "[]" "[]"]
  have c: "getScopedTokeninfo (stub_env resp_200 (Inr (ti_scope []))) 0 [] stub_state
     = (Inr (ti_scope []), stub_state_fetched ''200 OK'')"
    by (simp add: sc)
  from getScopedTokeninfo_scope [OF req tok_ne fetch, of "[]" "''x''"]
  have d: "getScopedTokeninfo (stub_env resp_200 (Inr (ti_scope []))) 0 ''x'' stub_state
     = (Inl (ScopeMismatch
          (''No scope matches: expected one of '' @ stub_Quote []
             @ '', got '' @ stub_Quote ''x'')), stub_state_fetched ''200 OK'')"
    by (simp add: sc q)
  from getScopedTokeninfo_scope [OF req tok_ne fetch, of "''ab cd''" "''a''"]
  have e: "getScopedTokeninfo (stub_env resp_200 (Inr (ti_scope ''ab cd''))) 0 ''a'' stub_state
     = (Inl (ScopeMismatch
          (''No scope matches: expected one of '' @ stub_Quote ''ab cd''
             @ '', got '' @ stub_Quote ''a'')), stub_state_fetched ''200 OK'')"
    by (simp add: sc q)
  from a b c d e show ?thesis by simp
qed

text \<open>
  C10. No piece of the split holds a space, so a requested scope with a space in
  it never matches, whatever was granted. A granted string that is empty, begins
  or ends with a space, or has two spaces in a row has an empty piece, so the
  empty requested scope matches it: \<^verbatim>\<open>"a  b"\<close>, \<^verbatim>\<open>"a "\<close> and \<^verbatim>\<open>" a"\<close> as well
  as \<^verbatim>\<open>""\<close>.
\<close>

theorem getScopedTokeninfo_spaces:
  assumes "HTTPRequest s c = Inr r" and "getToken env r \<noteq> []"
    and "fetchTokeninfo env c (getToken env r) s = (Inr ti, s')"
  shows "(\<forall>w \<in> set (strings_Split (Scope ti) CHR '' ''). CHR '' '' \<notin> set w)
       \<and> (CHR '' '' \<in> set scope \<longrightarrow>
            getScopedTokeninfo env c scope s =
              (Inl (ScopeMismatch
                 (''No scope matches: expected one of '' @ strconv_Quote env (Scope ti)
                    @ '', got '' @ strconv_Quote env scope)), s'))
       \<and> (Scope ti = [] \<or> (\<exists>v. Scope ti = '' '' @ v) \<or> (\<exists>u. Scope ti = u @ '' '')
            \<or> (\<exists>u v. Scope ti = u @ ''  '' @ v) \<longrightarrow>
            getScopedTokeninfo env c [] s = (Inr ti, s'))
       \<and> (Scope ti \<in> {''a  b'', ''a '', '' a''} \<longrightarrow>
            getScopedTokeninfo env c [] s = (Inr ti, s'))"
proof -
  note g = getScopedTokeninfo_fetched [OF assms]
  have no_space: "\<forall>w \<in> set (strings_Split (Scope ti) CHR '' ''). CHR '' '' \<notin> set w"
    using strings_Split_no_sep by blast
  have with_space: "CHR '' '' \<in> set scope \<longrightarrow>
      getScopedTokeninfo env c scope s =
        (Inl (ScopeMismatch
           (''No scope matches: expected one of '' @ strconv_Quote env (Scope ti)
              @ '', got '' @ strconv_Quote env scope)), s')"
    using no_space by (auto simp add: g)
  have lead: "[] \<in> set (strings_Split ('' '' @ v) CHR '' '')" for v
    by simp
  have trail: "[] \<in> set (strings_Split (u @ '' '') CHR '' '')" for u
    using strings_Split_append [of u "CHR '' ''" "[]"] by simp
  have twice: "[] \<in> set (strings_Split (u @ ''  '' @ v) CHR '' '')" for u v
    using strings_Split_append [of u "CHR '' ''" "CHR '' '' # v"] by simp
  have empty_piece: "Scope ti = [] \<or> (\<exists>v. Scope ti = '' '' @ v) \<or> (\<exists>u. Scope ti = u @ '' '')
      \<or> (\<exists>u v. Scope ti = u @ ''  '' @ v) \<longrightarrow> [] \<in> set (strings_Split (Scope ti) CHR '' '')"
    using lead trail twice by auto
  have general: "Scope ti = [] \<or> (\<exists>v. Scope ti = '' '' @ v) \<or> (\<exists>u. Scope ti = u @ '' '')
      \<or> (\<exists>u v. Scope ti = u @ ''  '' @ v) \<longrightarrow> getScopedTokeninfo env c [] s = (Inr ti, s')"
    using empty_piece by (simp add: g)
  have examples: "Scope ti \<in> {''a  b'', ''a '', '' a''} \<longrightarrow>
      getScopedTokeninfo env c [] s = (Inr ti, s')"
    by (auto simp add: g)
  from no_space with_space general examples show ?thesis by blast
qed

theorem getScopedTokeninfo_spaces_witness:
  "getScopedTokeninfo (stub_env resp_200 (Inr (ti_scope ''a b''))) 0 ''a b'' stub_state
     = (Inl (ScopeMismatch
          (''No scope matches: expected one of '' @ stub_Quote ''a b''
             @ '', got '' @ stub_Quote ''a b'')), stub_state_fetched ''200 OK'')
   \<and> getScopedTokeninfo (stub_env resp_200 (Inr (ti_scope ''a  b''))) 0 [] stub_state
     = (Inr (ti_scope ''a  b''), stub_state_fetched ''200 OK'')
   \<and> getScopedTokeninfo (stub_env resp_200 (Inr (ti_scope ''a ''))) 0 [] stub_state
     = (Inr (ti_scope ''a ''), stub_state_fetched ''200 OK'')
   \<and> getScopedTokeninfo (stub_env resp_200 (Inr (ti_scope '' a''))) 0 [] stub_state
     = (Inr (ti_scope '' a''), stub_state_fetched ''200 OK'')"
proof -
  have req: "HTTPRequest stub_state 0 = Inr 7"
    by (simp add: HTTPRequest_def deref_def stub_state_def)
  have tok: "getToken (stub_env resp_200 d) 7 = ''ya29.token''" for d
    by (simp add: stub_env_def stub_getToken_def)
  have tok_ne: "getToken (stub_env resp_200 d) 7 \<noteq> []" for d
    by (simp add: tok)
  have q: "strconv_Quote (stub_env resp_200 d) = stub_Quote" for d
    by (simp add: stub_env_def)
  have fetch: "fetchTokeninfo (stub_env resp_200 (Inr (ti_scope g))) 0
      (getToken (stub_env resp_200 (Inr (ti_scope g))) 7) stub_state
      = (Inr (ti_scope g), stub_state_fetched ''200 OK'')" for g
    unfolding tok by (rule stub_fetch_valid) (simp_all add: ti_scope_def ti_valid_def)
  have sc: "Scope (ti_scope g) = g" for g
    by (simp add: ti_scope_def)
  from getScopedTokeninfo_spaces [OF req tok_ne fetch, of "''a b''" "''a b''"]
  have a: "getScopedTokeninfo (stub_env resp_200 (Inr (ti_scope ''a b''))) 0 ''a b'' stub_state
     = (Inl (ScopeMismatch
          (''No scope matches: expected one of '' @ stub_Quote ''a b''
             @ '', got '' @ stub_Quote ''a b'')), stub_state_fetched ''200 OK'')"
    by (simp add: sc q)
  from getScopedTokeninfo_spaces [OF req tok_ne fetch, of "''a  b''" "[]"]
  have b: "getScopedTokeninfo (stub_env resp_200 (Inr (ti_scope ''a  b''))) 0 [] stub_state
     = (Inr (ti_scope ''a  b''), stub_state_fetched ''200 OK'')"
    by (simp add: sc)
  from getScopedTokeninfo_spaces [OF req tok_ne fetch, of "''a ''" "[]"]
  have c: "getScopedTokeninfo (stub_env resp_200 (Inr (ti_scope ''a ''))) 0 [] stub_state
     = (Inr (ti_scope ''a ''), stub_state_fetched ''200 OK'')"
    by (simp add: sc)
  from getScopedTokeninfo_spaces [OF req tok_ne fetch, of "'' a''" "[]"]
  have d: "getScopedTokeninfo (stub_env resp_200 (Inr (ti_scope '' a''))) 0 [] stub_state
     = (Inr (ti_scope '' a''), stub_state_fetched ''200 OK'')"
    by (simp add: sc)
  from a b c d show ?thesis by simp
qed

subsection \<open>No token on the request\<close>

text \<open>
  C6. When the token read from the request of the context is the empty string,
  \<^verbatim>\<open>getScopedTokeninfo\<close> fails with NoTokenPresent and leaves the state as it
  was: no URL is fetched and nothing is logged. The result is the same whatever
  the network and the decoder would answer.
\<close>

theorem getScopedTokeninfo_no_token:
  assumes "HTTPRequest s c = Inr r" and "getToken env r = []"
  shows "getScopedTokeninfo env c scope s = (Inl (NoTokenPresent ''No token found''), s)
       \<and> requests (snd (getScopedTokeninfo env c scope s)) = requests s
       \<and> getScopedTokeninfo (env\<lparr>http_Get := g, json_Decode := d\<rparr>) c scope s
           = (Inl (NoTokenPresent ''No token found''), s)"
  using assms by (simp add: getScopedTokeninfo_def Let_def)

theorem getScopedTokeninfo_no_token_witness:
  "HTTPRequest stub_state 1 = Inr 0
   \<and> getToken (stub_env resp_200 (Inr ti_valid)) 0 = []
   \<and> getScopedTokeninfo (stub_env resp_200 (Inr ti_valid)) 1 ''a'' stub_state
       = (Inl (NoTokenPresent ''No token found''), stub_state)
   \<and> requests (snd (getScopedTokeninfo (stub_env resp_200 (Inr ti_valid)) 1 ''a'' stub_state))
       = []"
proof -
  have req: "HTTPRequest stub_state 1 = Inr 0"
    by (simp add: HTTPRequest_def deref_def stub_state_def)
  have tok: "getToken (stub_env resp_200 (Inr ti_valid)) 0 = []"
    by (simp add: stub_env_def stub_getToken_def)
  have none: "requests stub_state = []"
    by (simp add: stub_state_def)
  from getScopedTokeninfo_no_token [OF req tok, of "''a''"] req tok none
  show ?thesis by simp
qed

subsection \<open>Client identifier and user\<close>

text \<open>
  C8. When \<^verbatim>\<open>getScopedTokeninfo\<close> succeeds with a \<^verbatim>\<open>tokeninfo\<close>,
  \<^verbatim>\<open>CurrentOAuthClientID\<close> returns its \<^verbatim>\<open>IssuedTo\<close> and no error, and
  \<^verbatim>\<open>CurrentOAuthUser\<close> returns a user whose email is its \<^verbatim>\<open>Email\<close> and no error.
  When it fails, they return the empty string and no user, each with the very
  error that \<^verbatim>\<open>getScopedTokeninfo\<close> returned.
\<close>

theorem CurrentOAuth_accessors:
  "(getScopedTokeninfo env c scope s = (Inr ti, s') \<longrightarrow>
      CurrentOAuthClientID env c scope s = ((IssuedTo ti, None), s')
      \<and> CurrentOAuthUser env c scope s = ((Some \<lparr>User_Email = Email ti\<rparr>, None), s'))
   \<and> (getScopedTokeninfo env c scope s = (Inl err, s') \<longrightarrow>
      CurrentOAuthClientID env c scope s = (([], Some err), s')
      \<and> CurrentOAuthUser env c scope s = ((None, Some err), s'))"
  by (simp add: CurrentOAuthClientID_def CurrentOAuthUser_def)

theorem CurrentOAuth_accessors_witness:
  "CurrentOAuthClientID (stub_env resp_200 (Inr ti_valid)) 0 ''b'' stub_state
     = ((''client.apps.example.com'', None), stub_state_fetched ''200 OK'')
   \<and> CurrentOAuthUser (stub_env resp_200 (Inr ti_valid)) 0 ''b'' stub_state
     = ((Some \<lparr>User_Email = ''user@example.com''\<rparr>, None), stub_state_fetched ''200 OK'')
   \<and> CurrentOAuthClientID (stub_env resp_200 (Inr ti_valid)) 1 ''b'' stub_state
     = (([], Some (NoTokenPresent ''No token found'')), stub_state)
   \<and> CurrentOAuthUser (stub_env resp_200 (Inr ti_valid)) 1 ''b'' stub_state
     = ((None, Some (NoTokenPresent ''No token found'')), stub_state)"
proof -
  have req0: "HTTPRequest stub_state 0 = Inr 7"
    by (simp add: HTTPRequest_def deref_def stub_state_def)
  have tok: "getToken (stub_env resp_200 (Inr ti_valid)) 7 = ''ya29.token''"
    by (simp add: stub_env_def stub_getToken_def)
  have tok_ne: "getToken (stub_env resp_200 (Inr ti_valid)) 7 \<noteq> []"
    by (simp add: tok)
  have fetch: "fetchTokeninfo (stub_env resp_200 (Inr ti_valid)) 0
      (getToken (stub_env resp_200 (Inr ti_valid)) 7) stub_state
      = (Inr ti_valid, stub_state_fetched ''200 OK'')"
    unfolding tok by (rule stub_fetch_valid) (simp_all add: ti_valid_def)
  have ok: "getScopedTokeninfo (stub_env resp_200 (Inr ti_valid)) 0 ''b'' stub_state
      = (Inr ti_valid, stub_state_fetched ''200 OK'')"
    by (simp add: getScopedTokeninfo_fetched [OF req0 tok_ne fetch]) (simp add: ti_valid_def)
  have bad: "getScopedTokeninfo (stub_env resp_200 (Inr ti_valid)) 1 ''b'' stub_state
      = (Inl (NoTokenPresent ''No token found''), stub_state)"
    by (simp add: getScopedTokeninfo_def HTTPRequest_def deref_def stub_state_def
        stub_env_def stub_getToken_def)
  from CurrentOAuth_accessors [of "stub_env resp_200 (Inr ti_valid)" 0 "''b''" stub_state
      ti_valid "stub_state_fetched ''200 OK''"] ok
  have a: "CurrentOAuthClientID (stub_env resp_200 (Inr ti_valid)) 0 ''b'' stub_state
       = ((''client.apps.example.com'', None), stub_state_fetched ''200 OK'')"
    and b: "CurrentOAuthUser (stub_env resp_200 (Inr ti_valid)) 0 ''b'' stub_state
       = ((Some \<lparr>User_Email = ''user@example.com''\<rparr>, None), stub_state_fetched ''200 OK'')"
    by (simp_all add: ti_valid_def)
  from CurrentOAuth_accessors [of "stub_env resp_200 (Inr ti_valid)" 1 "''b''" stub_state
      _ stub_state "NoTokenPresent ''No token found''"] bad
  have c: "CurrentOAuthClientID (stub_env resp_200 (Inr ti_valid)) 1 ''b'' stub_state
       = (([], Some (NoTokenPresent ''No token found'')), stub_state)"
    and d: "CurrentOAuthUser (stub_env resp_200 (Inr ti_valid)) 1 ''b'' stub_state
       = ((None, Some (NoTokenPresent ''No token found'')), stub_state)"
    by simp_all
  from a b c d show ?thesis by simp
qed

subsection \<open>Namespace\<close>

text \<open>
  C9. For a context \<open>c\<close> and a name: when the platform derives a context \<open>nc\<close>,
  \<^verbatim>\<open>Namespace\<close> returns a pointer to a newly allocated context, different from
  \<open>c\<close> and from every context allocated before, that wraps \<open>nc\<close> and whose
  \<^verbatim>\<open>HTTPRequest()\<close> is the same request pointer as that of \<open>c\<close>. The platform
  context \<open>nc\<close> is not the one that \<open>c\<close> wraps. The struct of \<open>c\<close> and every other
  allocated context are as they were, nothing is fetched or logged, and the heap
  stays well-formed. When the platform fails, its error is returned as
  NamespaceError, no context is returned and the state is as it was.
\<close>

theorem Namespace_frame:
  assumes "deref (heap s) c = Some tc" and "wf_heap (heap s)"
  shows "(appengine_Namespace env (heap s) c name = Inr nc \<longrightarrow>
            (\<exists>c' s'. Namespace env c name s = (Inr c', s')
               \<and> c' \<noteq> c \<and> deref (heap s) c' = None
               \<and> deref (heap s') c' = Some \<lparr>tc_Context = nc, tc_h = tc_h tc\<rparr>
               \<and> nc \<noteq> tc_Context tc
               \<and> map_option tc_Context (deref (heap s') c')
                    \<noteq> map_option tc_Context (deref (heap s') c)
               \<and> HTTPRequest s' c' = HTTPRequest s c
               \<and> deref (heap s') c = Some tc
               \<and> HTTPRequest s' c = HTTPRequest s c
               \<and> (\<forall>p. p < length (heap s) \<longrightarrow> deref (heap s') p = deref (heap s) p)
               \<and> requests s' = requests s \<and> logs s' = logs s \<and> closed s' = closed s
               \<and> wf_heap (heap s')))
       \<and> (appengine_Namespace env (heap s) c name = Inl err \<longrightarrow>
            Namespace env c name s = (Inl (NamespaceError err), s))"
proof -
  have lt: "c < length (heap s)"
    using assms(1) by (rule deref_Some_less)
  have fail: "appengine_Namespace env (heap s) c name = Inl err \<longrightarrow>
      Namespace env c name s = (Inl (NamespaceError err), s)"
    by (simp add: Namespace_def)
  have ok: "\<exists>c' s'. Namespace env c name s = (Inr c', s')
      \<and> c' \<noteq> c \<and> deref (heap s) c' = None
      \<and> deref (heap s') c' = Some \<lparr>tc_Context = nc, tc_h = tc_h tc\<rparr>
      \<and> nc \<noteq> tc_Context tc
      \<and> map_option tc_Context (deref (heap s') c')
           \<noteq> map_option tc_Context (deref (heap s') c)
      \<and> HTTPRequest s' c' = HTTPRequest s c
      \<and> deref (heap s') c = Some tc
      \<and> HTTPRequest s' c = HTTPRequest s c
      \<and> (\<forall>p. p < length (heap s) \<longrightarrow> deref (heap s') p = deref (heap s) p)
      \<and> requests s' = requests s \<and> logs s' = logs s \<and> closed s' = closed s
      \<and> wf_heap (heap s')"
    if platform: "appengine_Namespace env (heap s) c name = Inr nc"
  proof -
    let ?new = "\<lparr>tc_Context = nc, tc_h = tc_h tc\<rparr>"
    let ?s' = "s\<lparr>heap := heap s @ [?new]\<rparr>"
    have run: "Namespace env c name s = (Inr (length (heap s)), ?s')"
      using assms(1) platform by (rule Namespace_alloc)
    have fresh: "length (heap s) \<noteq> c" "deref (heap s) (length (heap s)) = None"
      using lt by (simp_all add: deref_def)
    have new: "deref (heap ?s') (length (heap s)) = Some ?new"
      by (simp add: deref_append_new)
    have old: "\<forall>p. p < length (heap s) \<longrightarrow> deref (heap ?s') p = deref (heap s) p"
      by (simp add: deref_append_old)
    have same: "deref (heap ?s') c = Some tc"
      using old lt assms(1) by simp
    have derived: "nc = Namespaced c name"
      using platform by (rule appengine_Namespace_Inr)
    have earlier: "derived_before c (tc_Context tc)"
      using assms(2) assms(1) by (rule wf_heap_deref)
    have distinct: "nc \<noteq> tc_Context tc"
    proof
      assume "nc = tc_Context tc"
      with derived earlier have "derived_before c (Namespaced c name)" by simp
      then show False by simp
    qed
    have distinct': "map_option tc_Context (deref (heap ?s') (length (heap s)))
        \<noteq> map_option tc_Context (deref (heap ?s') c)"
      using new same distinct by simp
    have req_new: "HTTPRequest ?s' (length (heap s)) = HTTPRequest s c"
      using new assms(1) by (simp add: HTTPRequest_def)
    have req_old: "HTTPRequest ?s' c = HTTPRequest s c"
      using same assms(1) by (simp add: HTTPRequest_def)
    have rest: "requests ?s' = requests s" "logs ?s' = logs s" "closed ?s' = closed s"
      by simp_all
    have wf: "wf_heap (heap ?s')"
      using assms(2) lt derived by (simp add: wf_heap_def wf_from_append)
    from run fresh new distinct distinct' old same req_new req_old rest wf
    show ?thesis by blast
  qed
  from ok fail show ?thesis by blast
qed

theorem Namespace_frame_witness:
  "deref (heap stub_state) 0 = Some \<lparr>tc_Context = NewContext 7, tc_h = 7\<rparr>
   \<and> wf_heap (heap stub_state)
   \<and> Namespace (stub_env resp_200 (Inr ti_valid)) 0 ''tenant'' stub_state
       = (Inr 2, stub_state\<lparr>heap := heap stub_state
                    @ [\<lparr>tc_Context = Namespaced 0 ''tenant'', tc_h = 7\<rparr>]\<rparr>)
   \<and> Namespaced 0 ''tenant'' \<noteq> NewContext 7
   \<and> Namespace (stub_env resp_200 (Inr ti_valid)) 0 [] stub_state
       = (Inr 2, stub_state\<lparr>heap := heap stub_state
                    @ [\<lparr>tc_Context = Namespaced 0 [], tc_h = 7\<rparr>]\<rparr>)
   \<and> Namespace (stub_env resp_200 (Inr ti_valid)) 0 ''no way'' stub_state
       = (Inl (NamespaceError ''appengine: namespace does not match''), stub_state)"
proof -
  let ?env = "stub_env resp_200 (Inr ti_valid)"
  have c0: "deref (heap stub_state) 0 = Some \<lparr>tc_Context = NewContext 7, tc_h = 7\<rparr>"
    by (simp add: deref_def stub_state_def)
  have wf: "wf_heap (heap stub_state)"
    by (simp add: wf_heap_def stub_state_def)
  have len: "length (heap stub_state) = 2"
    by (simp add: stub_state_def)
  have good: "appengine_Namespace ?env (heap stub_state) 0 n = Inr (Namespaced 0 n)"
    if "CHR '' '' \<notin> set n" for n
    using that by (simp add: appengine_Namespace_def stub_env_def stub_namespace_failure_def)
  have bad: "appengine_Namespace ?env (heap stub_state) 0 ''no way''
      = Inl ''appengine: namespace does not match''"
    by (simp add: appengine_Namespace_def stub_env_def stub_namespace_failure_def)
  have run: "Namespace ?env 0 n stub_state
      = (Inr 2, stub_state\<lparr>heap := heap stub_state
                   @ [\<lparr>tc_Context = Namespaced 0 n, tc_h = 7\<rparr>]\<rparr>)
      \<and> Namespaced 0 n \<noteq> NewContext 7"
    if n: "CHR '' '' \<notin> set n" for n
  proof -
    from Namespace_frame [OF c0 wf, of ?env n "Namespaced 0 n"] good [OF n]
    obtain c' s' where r: "Namespace ?env 0 n stub_state = (Inr c', s')"
      and d: "Namespaced 0 n \<noteq> tc_Context \<lparr>tc_Context = NewContext 7, tc_h = 7\<rparr>"
      by auto
    from Namespace_alloc [OF c0 good [OF n]] d show ?thesis
      by (simp add: len)
  qed
  from Namespace_frame [OF c0 wf, of ?env "''no way''" _ "''appengine: namespace does not match''"]
    bad
  have b: "Namespace ?env 0 ''no way'' stub_state
      = (Inl (NamespaceError ''appengine: namespace does not match''), stub_state)"
    by simp
  from c0 wf run [of "''tenant''"] run [of "[]"] b show ?thesis by simp
qed

end
